theory Spec2Isabelle
  imports Main "HOL-Library.Word"
begin

unbundle bit_operations_syntax

section \<open>Data model of \<open>src/Props.h\<close>\<close>

text \<open>
  \<open>enum class Type : int32_t\<close>: the discriminant of a \<open>PropVal\<close>. The constructors
  carry the suffix \<open>_t\<close>; their order is the order of the enumerators.
\<close>

datatype Type =
  NONE_t | BOOL_t | INTEGER_t | REAL_t | NAME_t | STRING_t | ARRAY_t | INDEXED_t | STRUC_t

text \<open>
  \<open>using Integer = int64_t\<close>: a 64-bit word, read as two's complement by \<open>sint\<close>.
  \<open>using Real = double\<close>: the 64 bits of the IEEE-754 binary64 encoding (sign in bit 63,
  biased exponent in bits 62..52, fraction in bits 51..0).
\<close>

type_synonym Integer = "64 word"
type_synonym Real = "64 word"
type_synonym int32_t = "32 word"

text \<open>
  Modelled from the spec: the type \<open>Name\<close> (\<open>Name.h\<close> is not part of the sources at
  hand). The spec describes it as an interned string handle with equality and a fast
  identity-based order; it is represented here by the id of the interned string, and
  \<open>Name::CompareById\<close> orders names by that id.
\<close>

datatype Name = Name (name_id: nat)

definition CompareById :: "Name \<Rightarrow> Name \<Rightarrow> bool" where
  "CompareById a b = (name_id a < name_id b)"

text \<open>
  \<open>class PropVal\<close>: the discriminant \<open>m_type\<close> together with the active member of the
  union \<open>Content\<close>. One constructor per tag, carrying that tag's payload. An \<open>Array\<close> is
  the sequence of its \<open>std::vector\<close>; a \<open>Map\<close> is the sequence of the entries of its
  \<open>std::map\<close> in iteration order (the order of the comparator).
\<close>

datatype PropVal =
    VNone
  | VBool bool
  | VInteger Integer
  | VReal Real
  | VName Name
  | VString string
  | VArray "PropVal list"
  | VIndexed "(Integer \<times> PropVal) list"
  | VStruc "(Name \<times> PropVal) list"

type_synonym Array = "PropVal list"
type_synonym 'k Entries = "('k \<times> PropVal) list"

text \<open>The only exception the accessors of \<open>PropVal\<close> throw is \<open>std::bad_cast\<close>;
  \<open>std::map::at\<close> throws \<open>std::out_of_range\<close>.\<close>

datatype error = bad_cast | out_of_range

fun m_type :: "PropVal \<Rightarrow> Type" where
  "m_type VNone = NONE_t"
| "m_type (VBool b) = BOOL_t"
| "m_type (VInteger i) = INTEGER_t"
| "m_type (VReal r) = REAL_t"
| "m_type (VName n) = NAME_t"
| "m_type (VString s) = STRING_t"
| "m_type (VArray a) = ARRAY_t"
| "m_type (VIndexed m) = INDEXED_t"
| "m_type (VStruc o') = STRUC_t"

subsection \<open>The tag predicates\<close>

definition isNone :: "PropVal \<Rightarrow> bool" where
  "isNone v = (m_type v = NONE_t)"

definition isBool :: "PropVal \<Rightarrow> bool" where
  "isBool v = (m_type v = BOOL_t)"

definition isInteger :: "PropVal \<Rightarrow> bool" where
  "isInteger v = (m_type v = INTEGER_t)"

definition isReal :: "PropVal \<Rightarrow> bool" where
  "isReal v = (m_type v = INTEGER_t \<or> m_type v = REAL_t)"

definition isName :: "PropVal \<Rightarrow> bool" where
  "isName v = (m_type v = NAME_t)"

definition isString :: "PropVal \<Rightarrow> bool" where
  "isString v = (m_type v = STRING_t)"

definition isArray :: "PropVal \<Rightarrow> bool" where
  "isArray v = (m_type v = ARRAY_t)"

definition isIndexed :: "PropVal \<Rightarrow> bool" where
  "isIndexed v = (m_type v = INDEXED_t)"

definition isStruc :: "PropVal \<Rightarrow> bool" where
  "isStruc v = (m_type v = STRUC_t)"

subsection \<open>Narrowing casts and scalar accessors\<close>

text \<open>
  \<open>castToInt32\<close>: \<open>static_cast<int32_t>(value)\<close> keeps the low 32 bits (\<open>ucast\<close>); the
  comparison \<open>r == value\<close> promotes \<open>r\<close> to \<open>int64_t\<close> by sign extension (\<open>scast\<close>).
  (The narrowing conversion is modular on every two's complement implementation, and
  by the language itself since C++20.)
\<close>

definition castToInt32 :: "Integer \<Rightarrow> error + int32_t" where
  "castToInt32 value = (let r = (ucast value :: int32_t) in
     if (scast r :: Integer) = value then Inr r else Inl bad_cast)"

definition castToBool :: "Integer \<Rightarrow> error + bool" where
  "castToBool value =
     (if value = 0 then Inr False else if value = 1 then Inr True else Inl bad_cast)"

fun asBool :: "PropVal \<Rightarrow> error + bool" where
  "asBool (VBool b) = Inr b"
| "asBool (VInteger i) = castToBool i"
| "asBool _ = Inl bad_cast"

fun asInt :: "PropVal \<Rightarrow> error + int32_t" where
  "asInt (VInteger i) = castToInt32 i"
| "asInt (VBool b) = Inr (if b then 1 else 0)"
| "asInt _ = Inl bad_cast"

fun asLong64 :: "PropVal \<Rightarrow> error + Integer" where
  "asLong64 (VInteger i) = Inr i"
| "asLong64 (VBool b) = Inr (if b then 1 else 0)"
| "asLong64 _ = Inl bad_cast"

subsection \<open>Doubles\<close>


definition d_exp :: "Real \<Rightarrow> nat" where
  "d_exp d = unat (drop_bit 52 d AND 0x7FF)"

definition d_frac :: "Real \<Rightarrow> nat" where
  "d_frac d = unat (d AND 0xFFFFFFFFFFFFF)"

definition isnan :: "Real \<Rightarrow> bool" where
  "isnan d = (d_exp d = 2047 \<and> d_frac d \<noteq> 0)"


definition iszero :: "Real \<Rightarrow> bool" where
  "iszero d = (d_exp d = 0 \<and> d_frac d = 0)"

text \<open>
  The built-in \<open>==\<close> of two \<open>double\<close>s is the IEEE-754 comparison: a NaN is equal to
  nothing, not even to itself; the two zeros are equal to each other; any other two
  doubles are equal exactly when their bits are.
\<close>

definition double_eq :: "Real \<Rightarrow> Real \<Rightarrow> bool" where
  "double_eq a b = (\<not> isnan a \<and> \<not> isnan b \<and> (a = b \<or> (iszero a \<and> iszero b)))"

subsection \<open>Equality\<close>

text \<open>
  \<open>std::mismatch(first1, last1, first2)\<close> with the elements' \<open>operator==\<close> as \<open>eq\<close>:
  it walks both ranges while \<open>first1 != last1 && *first1 == *first2\<close> and returns the two
  iterators, here the rest of each range. The second range has no end of its own: when
  it is used up before the first, \<open>*first2\<close> reads past its end, which is undefined
  behaviour and the result \<open>None\<close>. A comparison of elements that is itself undefined
  makes the whole call undefined.
\<close>

fun mismatch ::
  "('a \<Rightarrow> 'b \<Rightarrow> bool option) \<Rightarrow> 'a list \<Rightarrow> 'b list \<Rightarrow> ('a list \<times> 'b list) option" where
  "mismatch eq [] ys = Some ([], ys)"
| "mismatch eq (x # xs) [] = None"
| "mismatch eq (x # xs) (y # ys) =
     (case eq x y of
        None \<Rightarrow> None
      | Some True \<Rightarrow> mismatch eq xs ys
      | Some False \<Rightarrow> Some (x # xs, y # ys))"

lemma mismatch_cong [fundef_cong]:
  "xs = xs' \<Longrightarrow> ys = ys' \<Longrightarrow> (\<And>x y. x \<in> set xs' \<Longrightarrow> y \<in> set ys' \<Longrightarrow> eq x y = eq' x y)
   \<Longrightarrow> mismatch eq xs ys = mismatch eq' xs' ys'"
proof (induction eq xs ys arbitrary: xs' ys' rule: mismatch.induct)
  case (3 eq x xs y ys)
  then show ?case by (auto split: option.splits bool.splits)
qed auto

text \<open>
  \<open>PropVal::operator==\<close> (\<open>PropVal_eq\<close>) switches on the tag of \<open>*this\<close> and handles
  NONE, BOOL, INTEGER and REAL itself; every other tag goes to \<open>comparisonImpl\<close>. The
  result \<open>None\<close> stands for undefined behaviour inside a container comparison.
\<close>

text \<open>
  Modelled from the spec: \<open>comparisonImpl\<close> (declared in \<open>Props.h\<close>, defined in a file
  that is not part of the sources at hand). The spec: symbol, text, sequence,
  indexed-map and struc-map "require identical tag and structural/elementwise
  equality". Symbol and text are modelled by these words. For the three containers
  the model requires the identical tag and then compares the payloads with the
  container's own \<open>operator==\<close> of \<open>Props.h\<close>, the only comparison of containers in the
  sources; its body \<open>std::mismatch(begin(), end(), other.begin()).first == end()\<close> is
  written out here (the functions are mutually recursive), and entries of a map are
  \<open>std::pair\<close>s, equal when the keys are equal and then the values are. Where two
  containers differ in size this is not the equality of the spec's words: see
  \<open>Array_eq\<close> and \<open>Map_eq\<close> below. \<open>operator==\<close> never calls \<open>comparisonImpl\<close> on the
  first four tags; the model answers false there.
\<close>

fun PropVal_eq :: "PropVal \<Rightarrow> PropVal \<Rightarrow> bool option"
  and comparisonImpl :: "PropVal \<Rightarrow> PropVal \<Rightarrow> bool option" where
  "PropVal_eq VNone other = Some (m_type other = NONE_t)"
| "PropVal_eq (VBool b) other =
     (case other of
        VBool b' \<Rightarrow> Some (b = b')
      | VInteger i' \<Rightarrow> Some ((if b then 1 else 0) = i')
      | _ \<Rightarrow> Some False)"
| "PropVal_eq (VInteger i) other =
     (case other of
        VInteger i' \<Rightarrow> Some (i = i')
      | VBool b' \<Rightarrow> Some (i = (if b' then 1 else 0))
      | _ \<Rightarrow> Some False)"
| "PropVal_eq (VReal r) other =
     (case other of VReal r' \<Rightarrow> Some (double_eq r r') | _ \<Rightarrow> Some False)"
| "PropVal_eq (VName n) other = comparisonImpl (VName n) other"
| "PropVal_eq (VString s) other = comparisonImpl (VString s) other"
| "PropVal_eq (VArray a) other = comparisonImpl (VArray a) other"
| "PropVal_eq (VIndexed m) other = comparisonImpl (VIndexed m) other"
| "PropVal_eq (VStruc m) other = comparisonImpl (VStruc m) other"
| "comparisonImpl (VName n) other =
     (case other of VName n' \<Rightarrow> Some (n = n') | _ \<Rightarrow> Some False)"
| "comparisonImpl (VString s) other =
     (case other of VString s' \<Rightarrow> Some (s = s') | _ \<Rightarrow> Some False)"
| "comparisonImpl (VArray a) other =
     (case other of
        VArray a' \<Rightarrow> map_option (\<lambda>r. fst r = []) (mismatch PropVal_eq a a')
      | _ \<Rightarrow> Some False)"
| "comparisonImpl (VIndexed m) other =
     (case other of
        VIndexed m' \<Rightarrow> map_option (\<lambda>r. fst r = [])
          (mismatch (\<lambda>(k, v) (k', v'). if k = k' then PropVal_eq v v' else Some False) m m')
      | _ \<Rightarrow> Some False)"
| "comparisonImpl (VStruc m) other =
     (case other of
        VStruc m' \<Rightarrow> map_option (\<lambda>r. fst r = [])
          (mismatch (\<lambda>(k, v) (k', v'). if k = k' then PropVal_eq v v' else Some False) m m')
      | _ \<Rightarrow> Some False)"
| "comparisonImpl _ other = Some False"

text \<open>
  \<open>Array::operator==\<close> and \<open>Map::operator==\<close>, both
  \<open>std::mismatch(begin(), end(), other.begin()).first == end()\<close>: the result is true
  when the walk stopped at the end of the first range. \<open>Entry_eq\<close> is the \<open>operator==\<close>
  of \<open>std::pair<const Key, PropVal>\<close>.
\<close>

definition Array_eq :: "Array \<Rightarrow> Array \<Rightarrow> bool option" where
  "Array_eq a other = map_option (\<lambda>r. fst r = []) (mismatch PropVal_eq a other)"

definition Entry_eq :: "'k \<times> PropVal \<Rightarrow> 'k \<times> PropVal \<Rightarrow> bool option" where
  "Entry_eq x y = (if fst x = fst y then PropVal_eq (snd x) (snd y) else Some False)"

definition Map_eq :: "'k Entries \<Rightarrow> 'k Entries \<Rightarrow> bool option" where
  "Map_eq m other = map_option (\<lambda>r. fst r = []) (mismatch Entry_eq m other)"

text \<open>
  Two predicates used to state what equality guarantees: a value is \<open>nan_free\<close> when no
  real inside it, at any depth, is a NaN; the containers are the tags ARRAY, INDEXED
  and STRUC.
\<close>

fun nan_free :: "PropVal \<Rightarrow> bool" where
  "nan_free (VReal r) = (\<not> isnan r)"
| "nan_free (VArray a) = list_all nan_free a"
| "nan_free (VIndexed m) = list_all (\<lambda>e. nan_free (snd e)) m"
| "nan_free (VStruc m) = list_all (\<lambda>e. nan_free (snd e)) m"
| "nan_free _ = True"


subsection \<open>Construction from a number\<close>






text \<open>
  The comparison \<open>intVal == value\<close> converts \<open>intVal\<close> to \<open>double\<close> first, rounding to
  the nearest double, ties to even: \<open>round_to_double n\<close> is the value of
  \<open>double(n)\<close>. A number below \<open>2^53\<close> in magnitude is kept; a larger one keeps its 53
  leading bits, \<open>ulp_exp\<close> being the number of bits dropped. The comparison then holds
  when \<open>value\<close> is finite and the two values are the same number.
\<close>

function ulp_exp :: "nat \<Rightarrow> nat" where
  "ulp_exp a = (if a < 2 ^ 53 then 0 else Suc (ulp_exp (a div 2)))"
  by pat_completeness auto
termination
  by (relation "measure id") auto

declare ulp_exp.simps [simp del]

definition round_to_double :: "int \<Rightarrow> int" where
  "round_to_double n =
     (let a = nat \<bar>n\<bar>; k = ulp_exp a; q = a div 2 ^ k; r = a mod 2 ^ k;
          q' = (if 2 * r > 2 ^ k \<or> (2 * r = 2 ^ k \<and> odd q) then q + 1 else q)
      in sgn n * int (q' * 2 ^ k))"





subsection \<open>The ordered map \<open>Map<Key, Compare>\<close>\<close>

text \<open>
  The \<open>std::map\<close> behind \<open>m_entries\<close>, as the list of its entries in the order of the
  comparator \<open>cmp\<close> (the template parameter \<open>Compare\<close>). Two keys are equivalent when
  neither is before the other. \<open>map_find\<close> is \<open>std::map::find\<close>: it walks the entries
  in order and stops at the first key that is not before the one looked for.
\<close>

fun map_find :: "('k \<Rightarrow> 'k \<Rightarrow> bool) \<Rightarrow> 'k Entries \<Rightarrow> 'k \<Rightarrow> PropVal option" where
  "map_find cmp [] key = None"
| "map_find cmp ((k, v) # es) key =
     (if cmp k key then map_find cmp es key
      else if cmp key k then None
      else Some v)"

text \<open>
  What \<open>std::map::operator[]\<close> does for a key that has no entry: a new entry at the
  key's place in the order. An equivalent key that is already there keeps its entry.
\<close>

fun map_insert :: "('k \<Rightarrow> 'k \<Rightarrow> bool) \<Rightarrow> 'k \<Rightarrow> PropVal \<Rightarrow> 'k Entries \<Rightarrow> 'k Entries" where
  "map_insert cmp key val [] = [(key, val)]"
| "map_insert cmp key val ((k, v) # es) =
     (if cmp k key then (k, v) # map_insert cmp key val es
      else if cmp key k then (key, val) # (k, v) # es
      else (k, v) # es)"

text \<open>
  An assignment through the reference that \<open>operator[]\<close> returned
  (\<open>PropVal::operator=\<close> swaps the new value into the entry): the value of the entry
  of \<open>key\<close> is replaced.
\<close>

fun map_assign :: "('k \<Rightarrow> 'k \<Rightarrow> bool) \<Rightarrow> 'k \<Rightarrow> PropVal \<Rightarrow> 'k Entries \<Rightarrow> 'k Entries" where
  "map_assign cmp key val [] = []"
| "map_assign cmp key val ((k, v) # es) =
     (if cmp k key then (k, v) # map_assign cmp key val es
      else if cmp key k then (k, v) # es
      else (k, val) # es)"

text \<open>
  The members of \<open>Map\<close>. An operation that returns a \<open>PropVal&\<close> into the map returns
  here the value it refers to, together with the entries after the call.
  \<open>hasMember\<close> is \<open>find(key) != end()\<close>; \<open>at\<close> is \<open>std::map::at\<close>, which throws
  \<open>std::out_of_range\<close> for a missing key; \<open>operator[]\<close> (\<open>Map_subscript\<close>) inserts a
  default-constructed \<open>PropVal\<close>, whose tag is NONE, for a missing key.
\<close>

definition Map_hasMember :: "('k \<Rightarrow> 'k \<Rightarrow> bool) \<Rightarrow> 'k Entries \<Rightarrow> 'k \<Rightarrow> bool" where
  "Map_hasMember cmp m key = (map_find cmp m key \<noteq> None)"

definition Map_at :: "('k \<Rightarrow> 'k \<Rightarrow> bool) \<Rightarrow> 'k Entries \<Rightarrow> 'k \<Rightarrow> error + PropVal" where
  "Map_at cmp m key = (case map_find cmp m key of None \<Rightarrow> Inl out_of_range | Some v \<Rightarrow> Inr v)"

definition Map_subscript ::
  "('k \<Rightarrow> 'k \<Rightarrow> bool) \<Rightarrow> 'k Entries \<Rightarrow> 'k \<Rightarrow> PropVal \<times> 'k Entries" where
  "Map_subscript cmp m key =
     (case map_find cmp m key of
        Some v \<Rightarrow> (v, m)
      | None \<Rightarrow> (VNone, map_insert cmp key VNone m))"

text \<open>
  \<open>operator()(Key key, const PropVal &dflt)\<close>:
  \<open>if (hasMember(key)) return at(key); else return operator[](key) = dflt;\<close>
\<close>

definition Map_call ::
  "('k \<Rightarrow> 'k \<Rightarrow> bool) \<Rightarrow> 'k Entries \<Rightarrow> 'k \<Rightarrow> PropVal \<Rightarrow> error + PropVal \<times> 'k Entries" where
  "Map_call cmp m key dflt =
     (if Map_hasMember cmp m key then map_sum id (\<lambda>v. (v, m)) (Map_at cmp m key)
      else (let m' = map_assign cmp key dflt (snd (Map_subscript cmp m key))
            in map_sum id (\<lambda>v. (v, m')) (Map_at cmp m' key)))"

text \<open>
  \<open>operator()(Key key, PropVal &&dflt)\<close>: the same with \<open>std::move(dflt)\<close>. The third
  component of the result is the caller's \<open>dflt\<close> after the call: untouched when the key
  was present, and otherwise what the move constructor of \<open>PropVal\<close> left there by
  swapping with a fresh value, which is NONE.
\<close>

definition Map_call_move ::
  "('k \<Rightarrow> 'k \<Rightarrow> bool) \<Rightarrow> 'k Entries \<Rightarrow> 'k \<Rightarrow> PropVal \<Rightarrow> error + PropVal \<times> 'k Entries \<times> PropVal" where
  "Map_call_move cmp m key dflt =
     (if Map_hasMember cmp m key then map_sum id (\<lambda>v. (v, m, dflt)) (Map_at cmp m key)
      else (let m' = map_assign cmp key dflt (snd (Map_subscript cmp m key))
            in map_sum id (\<lambda>v. (v, m', VNone)) (Map_at cmp m' key)))"

text \<open>
  What the theorems ask of a comparator: irreflexive and transitive. \<open>std::less\<close> on
  \<open>int64_t\<close> (\<open>word_sless\<close>) and \<open>Name::CompareById\<close> are.
\<close>

definition strict_order :: "('k \<Rightarrow> 'k \<Rightarrow> bool) \<Rightarrow> bool" where
  "strict_order cmp = ((\<forall>a. \<not> cmp a a) \<and> (\<forall>a b c. cmp a b \<longrightarrow> cmp b c \<longrightarrow> cmp a c))"

subsection \<open>Iteration: \<open>begin()\<close> and \<open>end()\<close>\<close>

text \<open>
  A \<open>PropVal*\<close> is an address counted in objects of type \<open>PropVal\<close>, so that \<open>p + 1\<close>
  is the next object. \<open>this\<close> is the address of the value itself and \<open>dat\<close> the address
  \<open>m_elements->data()\<close> of the first element of its array, should it be an array.
  \<open>Array::begin()\<close> is \<open>data()\<close> and \<open>Array::end()\<close> is \<open>data() + size()\<close>.
\<close>

type_synonym ptr = nat

definition Array_begin :: "ptr \<Rightarrow> Array \<Rightarrow> ptr" where
  "Array_begin dat a = dat"

definition Array_end :: "ptr \<Rightarrow> Array \<Rightarrow> ptr" where
  "Array_end dat a = dat + length a"

fun PropVal_begin :: "ptr \<Rightarrow> ptr \<Rightarrow> PropVal \<Rightarrow> ptr" where
  "PropVal_begin this dat (VArray a) = Array_begin dat a"
| "PropVal_begin this dat _ = this"

fun PropVal_end :: "ptr \<Rightarrow> ptr \<Rightarrow> PropVal \<Rightarrow> ptr" where
  "PropVal_end this dat (VArray a) = Array_end dat a"
| "PropVal_end this dat _ = this"

text \<open>
  The range-based \<open>for\<close> over a value: \<open>for (it = begin(); it != end(); ++it)\<close>, reading
  \<open>*it\<close> from the memory \<open>mem\<close>. It returns the objects visited, or \<open>None\<close> when it
  reads an address that holds no object or starts behind \<open>end()\<close>, which it then never
  meets.
\<close>

function range_for :: "(ptr \<Rightarrow> 'a option) \<Rightarrow> ptr \<Rightarrow> ptr \<Rightarrow> 'a list option" where
  "range_for mem b e =
     (if b = e then Some []
      else if e < b then None
      else (case mem b of
              None \<Rightarrow> None
            | Some x \<Rightarrow> map_option ((#) x) (range_for mem (b + 1) e)))"
  by pat_completeness auto
termination
  by (relation "measure (\<lambda>(mem, b, e). e - b)") auto

declare range_for.simps [simp del]

text \<open>
  The memory holds the elements of the array \<open>a\<close> at the addresses \<open>dat\<close>,
  \<open>dat + 1\<close>, ..., in order.
\<close>

definition holds_array :: "(ptr \<Rightarrow> 'a option) \<Rightarrow> ptr \<Rightarrow> 'a list \<Rightarrow> bool" where
  "holds_array mem dat a = (map mem [dat ..< dat + length a] = map Some a)"

section \<open>Theorems\<close>

lemma m_type_cases:
  "m_type v = NONE_t \<longleftrightarrow> v = VNone"
  "m_type v = BOOL_t \<longleftrightarrow> (\<exists>b. v = VBool b)"
  "m_type v = INTEGER_t \<longleftrightarrow> (\<exists>i. v = VInteger i)"
  "m_type v = REAL_t \<longleftrightarrow> (\<exists>r. v = VReal r)"
  "m_type v = NAME_t \<longleftrightarrow> (\<exists>n. v = VName n)"
  "m_type v = STRING_t \<longleftrightarrow> (\<exists>s. v = VString s)"
  "m_type v = ARRAY_t \<longleftrightarrow> (\<exists>a. v = VArray a)"
  "m_type v = INDEXED_t \<longleftrightarrow> (\<exists>m. v = VIndexed m)"
  "m_type v = STRUC_t \<longleftrightarrow> (\<exists>m. v = VStruc m)"
  by (cases v; simp)+


subsection \<open>Construction from a number\<close>


lemma ulp_exp_small: "a < 2 ^ 53 \<Longrightarrow> ulp_exp a = 0"
  by (subst ulp_exp.simps) simp

lemma ulp_exp_shifted: "2 ^ 52 \<le> m \<Longrightarrow> m < 2 ^ 53 \<Longrightarrow> ulp_exp (m * 2 ^ j) = j"
proof (induction j)
  case 0
  then show ?case by (simp add: ulp_exp_small)
next
  case (Suc j)
  have "2 ^ 52 * 2 ^ Suc j \<le> m * 2 ^ Suc j"
    using Suc.prems(1) by (rule mult_le_mono1)
  moreover have "(2::nat) ^ 53 * 1 \<le> 2 ^ 53 * 2 ^ j"
    by (rule mult_le_mono2) simp
  moreover have "(2::nat) ^ 52 * 2 ^ Suc j = 2 ^ 53 * 2 ^ j"
    by simp
  ultimately have big: "\<not> m * 2 ^ Suc j < 2 ^ 53" by linarith
  have "ulp_exp (m * 2 ^ Suc j) = Suc (ulp_exp (m * 2 ^ Suc j div 2))"
    using big by (subst ulp_exp.simps) simp
  also have "m * 2 ^ Suc j div 2 = m * 2 ^ j" by simp
  finally show ?case using Suc by simp
qed


lemma round_to_double_exact:
  assumes "nat \<bar>n\<bar> mod 2 ^ ulp_exp (nat \<bar>n\<bar>) = 0"
  shows "round_to_double n = n"
proof -
  define a where "a = nat \<bar>n\<bar>"
  define k where "k = ulp_exp a"
  have r: "a mod 2 ^ k = 0" using assms by (simp add: a_def k_def)
  have "a div 2 ^ k * 2 ^ k = a"
    using r by (metis add.right_neutral div_mult_mod_eq)
  moreover have "sgn n * int a = n"
    by (simp add: a_def mult_sgn_abs)
  ultimately have "sgn n * int (a div 2 ^ k * 2 ^ k) = n" by simp
  moreover have "round_to_double n = sgn n * int (a div 2 ^ k * 2 ^ k)"
    unfolding round_to_double_def Let_def a_def [symmetric] k_def [symmetric]
    by (simp add: r)
  ultimately show ?thesis by simp
qed


lemma round_to_double_exact_shifted:
  assumes "2 ^ 52 \<le> m" "m < 2 ^ 53" "nat \<bar>n\<bar> = m * 2 ^ j"
  shows "round_to_double n = n"
proof -
  have "ulp_exp (m * 2 ^ j) = j"
    using assms(1,2) by (rule ulp_exp_shifted)
  then show ?thesis
    by (intro round_to_double_exact) (simp add: assms(3))
qed




















lemma round_int64_min: "round_to_double (- 9223372036854775808) = - 9223372036854775808"
  by (rule round_to_double_exact_shifted [of "2 ^ 52" _ 11]) simp_all






subsection \<open>Tag predicates\<close>

text \<open>
  Claim C9. \<open>isReal()\<close> is true exactly for the tags INTEGER and REAL, so it is true
  for an integer-tagged value, which is not real-tagged; each of the other eight
  predicates is true exactly for its own tag.
\<close>

theorem isReal_integer_or_real:
  "isReal v = (m_type v = INTEGER_t \<or> m_type v = REAL_t)
   \<and> isReal v = ((\<exists>i. v = VInteger i) \<or> (\<exists>r. v = VReal r))
   \<and> isReal (VInteger i) \<and> m_type (VInteger i) \<noteq> REAL_t
   \<and> isNone v = (v = VNone)
   \<and> isBool v = (\<exists>b. v = VBool b)
   \<and> isInteger v = (\<exists>i. v = VInteger i)
   \<and> isName v = (\<exists>n. v = VName n)
   \<and> isString v = (\<exists>s. v = VString s)
   \<and> isArray v = (\<exists>a. v = VArray a)
   \<and> isIndexed v = (\<exists>m. v = VIndexed m)
   \<and> isStruc v = (\<exists>m. v = VStruc m)"
  unfolding isReal_def isNone_def isBool_def isInteger_def isName_def isString_def
    isArray_def isIndexed_def isStruc_def
  by (simp add: m_type_cases)

subsection \<open>Scalar accessors\<close>

text \<open>
  Claim C6. \<open>asBool()\<close> returns the stored boolean of a boolean-tagged value; on an
  integer-tagged value it returns false for 0, true for 1 and throws \<open>std::bad_cast\<close>
  for every other integer; on every other tag it throws \<open>std::bad_cast\<close>.
\<close>

theorem asBool_cases:
  "asBool v =
     (case v of
        VBool b \<Rightarrow> Inr b
      | VInteger i \<Rightarrow> (if i = 0 then Inr False else if i = 1 then Inr True else Inl bad_cast)
      | _ \<Rightarrow> Inl bad_cast)
   \<and> asBool (VInteger 0) = Inr False
   \<and> asBool (VInteger 1) = Inr True
   \<and> asBool (VInteger 2) = Inl bad_cast"
  by (cases v) (simp_all add: castToBool_def)

lemma sint_ucast_32: "sint (ucast (i :: Integer) :: int32_t) = signed_take_bit 31 (sint i)"
proof -
  have "sint (ucast i :: int32_t) = signed_take_bit 31 (uint i)"
    by (simp add: signed_ucast_eq)
  also have "\<dots> = signed_take_bit 31 (sint i)"
    by (simp add: sint_uint signed_take_bit_signed_take_bit)
  finally show ?thesis .
qed

lemma int32_round_trip:
  "((scast (ucast (i :: Integer) :: int32_t) :: Integer) = i)
     = (- (2 ^ 31) \<le> sint i \<and> sint i < 2 ^ 31)"
proof -
  have up: "sint (scast (ucast i :: int32_t) :: Integer) = sint (ucast i :: int32_t)"
    by (rule sint_up_scast) (simp add: is_up)
  have "((scast (ucast i :: int32_t) :: Integer) = i)
      = (sint (scast (ucast i :: int32_t) :: Integer) = sint i)"
    by (auto intro: signed_word_eqI)
  also have "\<dots> = (signed_take_bit 31 (sint i) = sint i)"
    by (simp only: up sint_ucast_32)
  also have "\<dots> = (- (2 ^ 31) \<le> sint i \<and> sint i < 2 ^ 31)"
    by (rule signed_take_bit_int_eq_self_iff)
  finally show ?thesis .
qed

lemma castToInt32_range:
  "castToInt32 i =
     (if - (2 ^ 31) \<le> sint i \<and> sint i < 2 ^ 31 then Inr (ucast i) else Inl bad_cast)"
  by (simp add: castToInt32_def int32_round_trip)

lemma castToInt32_value:
  "map_sum id sint (castToInt32 i) =
     (if - (2 ^ 31) \<le> sint i \<and> sint i < 2 ^ 31 then Inr (sint i) else Inl bad_cast)"
  by (simp add: castToInt32_range sint_ucast_32 signed_take_bit_int_eq_self)

text \<open>
  Claim C7. On an integer-tagged value \<open>asInt()\<close> succeeds exactly when the stored
  value round-trips through 32 bits, that is when it lies in the range of \<open>int32_t\<close>,
  and then returns the same number; otherwise it throws \<open>std::bad_cast\<close>. On a boolean
  it returns 0 or 1. \<open>asLong64()\<close> returns the stored integer unchanged. For
  \<open>int64_t(1) << 40\<close>, \<open>asInt()\<close> throws and \<open>asLong64()\<close> returns \<open>1 << 40\<close>.
\<close>

theorem asInt_asLong64_integer:
  "asInt (VInteger i) =
     (if (scast (ucast i :: int32_t) :: Integer) = i then Inr (ucast i) else Inl bad_cast)
   \<and> asInt (VInteger i) =
     (if - (2 ^ 31) \<le> sint i \<and> sint i < 2 ^ 31 then Inr (ucast i) else Inl bad_cast)
   \<and> map_sum id sint (asInt (VInteger i)) =
     (if - (2 ^ 31) \<le> sint i \<and> sint i < 2 ^ 31 then Inr (sint i) else Inl bad_cast)
   \<and> asInt (VBool b) = Inr (if b then 1 else 0)
   \<and> asLong64 (VInteger i) = Inr i
   \<and> asInt (VInteger (push_bit 40 1)) = Inl bad_cast
   \<and> asLong64 (VInteger (push_bit 40 1)) = Inr (push_bit 40 1)"
proof -
  have a: "asInt (VInteger i) =
     (if (scast (ucast i :: int32_t) :: Integer) = i then Inr (ucast i) else Inl bad_cast)"
    by (simp add: castToInt32_def)
  have b: "asInt (VInteger i) =
     (if - (2 ^ 31) \<le> sint i \<and> sint i < 2 ^ 31 then Inr (ucast i) else Inl bad_cast)"
    by (simp only: asInt.simps castToInt32_range)
  have c: "map_sum id sint (asInt (VInteger i)) =
     (if - (2 ^ 31) \<le> sint i \<and> sint i < 2 ^ 31 then Inr (sint i) else Inl bad_cast)"
    by (simp only: asInt.simps castToInt32_value)
  have d: "asInt (VInteger (push_bit 40 1)) = Inl bad_cast"
    by (simp add: castToInt32_def)
  from a b c d show ?thesis by simp
qed

subsection \<open>Equality\<close>

lemma Entry_eq_lambda:
  "(\<lambda>(k, v) (k', v'). if k = k' then PropVal_eq v v' else Some False) = Entry_eq"
  by (auto simp: Entry_eq_def fun_eq_iff)

lemma comparisonImpl_containers:
  "comparisonImpl (VArray a) (VArray a') = Array_eq a a'"
  "comparisonImpl (VIndexed m) (VIndexed m') = Map_eq m m'"
  "comparisonImpl (VStruc s) (VStruc s') = Map_eq s s'"
  by (simp_all add: Array_eq_def Map_eq_def Entry_eq_lambda)

lemma mismatch_refl:
  "(\<And>x. x \<in> set xs \<Longrightarrow> eq x x = Some True) \<Longrightarrow> mismatch eq xs xs = Some ([], [])"
  by (induction xs) auto

lemma iszero_not_nan: "iszero d \<Longrightarrow> \<not> isnan d"
  by (simp add: iszero_def isnan_def)

lemma double_eq_refl: "double_eq r r = (\<not> isnan r)"
  by (simp add: double_eq_def)


lemma double_eq_bits: "double_eq a b = ((a = b \<and> \<not> isnan a) \<or> (iszero a \<and> iszero b))"
  by (auto simp: double_eq_def dest: iszero_not_nan)

lemma PropVal_eq_refl: "nan_free v \<Longrightarrow> PropVal_eq v v = Some True"
proof (induction v)
  case (VArray a)
  then show ?case by (simp add: mismatch_refl list_all_iff)
next
  case (VIndexed m)
  have "mismatch (\<lambda>(k, v) (k', v'). if k = k' then PropVal_eq v v' else Some False) m m
          = Some ([], [])"
    using VIndexed by (intro mismatch_refl) (auto simp: list_all_iff snds.simps)
  then show ?case by simp
next
  case (VStruc m)
  have "mismatch (\<lambda>(k, v) (k', v'). if k = k' then PropVal_eq v v' else Some False) m m
          = Some ([], [])"
    using VStruc by (intro mismatch_refl) (auto simp: list_all_iff snds.simps)
  then show ?case by simp
qed (simp_all add: double_eq_refl)








text \<open>
  Claim C5, as stated, fails: two real-tagged values with the same bits, those of a
  NaN, do not compare equal.
\<close>

theorem PropVal_eq_real_same_bits_unequal:
  "PropVal_eq (VReal 0x7FF8000000000000) (VReal 0x7FF8000000000000) = Some False"
  by (simp add: double_eq_def isnan_def d_exp_def d_frac_def)

text \<open>
  Claim C5, amended. A real-tagged value compares equal only to another real-tagged
  value, and then by the \<open>==\<close> of the two doubles: they are equal exactly when their
  bits are equal and not those of a NaN, or both are zeros. A real-tagged value and an
  integer-tagged value never compare equal, in either order.
\<close>

theorem PropVal_eq_real:
  "PropVal_eq (VReal r) w = Some (case w of VReal r' \<Rightarrow> double_eq r r' | _ \<Rightarrow> False)
   \<and> double_eq r r' = ((r = r' \<and> \<not> isnan r) \<or> (iszero r \<and> iszero r'))
   \<and> PropVal_eq (VReal r) (VInteger n) = Some False
   \<and> PropVal_eq (VInteger n) (VReal r) = Some False"
proof -
  have "PropVal_eq (VReal r) w = Some (case w of VReal r' \<Rightarrow> double_eq r r' | _ \<Rightarrow> False)"
    by (cases w) simp_all
  moreover have "double_eq r r' = ((r = r' \<and> \<not> isnan r) \<or> (iszero r \<and> iszero r'))"
    by (rule double_eq_bits)
  ultimately show ?thesis by simp
qed

lemma mismatch_extension:
  "(\<And>x. x \<in> set xs \<Longrightarrow> eq x x = Some True) \<Longrightarrow> mismatch eq xs (xs @ ys) = Some ([], ys)"
  by (induction xs) auto

text \<open>
  What the missing comparison of the sizes means in general: an array without NaNs
  compares equal to every array that extends it.
\<close>

lemma Array_eq_extension: "nan_free (VArray a) \<Longrightarrow> Array_eq a (a @ b) = Some True"
  by (simp add: Array_eq_def mismatch_extension PropVal_eq_refl list_all_iff)

text \<open>
  Claim C3 at the input \<open>{1} == {1, 2}\<close>: the walk covers the one element of the left
  array only and the arrays compare equal though their lengths differ. With the
  operands exchanged the walk reads past the end of the shorter array.
\<close>

theorem Array_eq_prefix:
  "Array_eq [VInteger 1] [VInteger 1, VInteger 2] = Some True
   \<and> Array_eq [VInteger 1, VInteger 2] [VInteger 1] = None"
  by (simp add: Array_eq_def)

text \<open>
  Claim C4 at the input \<open>{1: 1} == {1: 1, 2: 2}\<close>: the entry list of the left map is a
  strict prefix of the right one's and the maps compare equal. With the operands
  exchanged the walk dereferences \<open>end()\<close> of the shorter map.
\<close>

theorem Map_eq_prefix:
  "Map_eq [(1 :: Integer, VInteger 1)] [(1, VInteger 1), (2, VInteger 2)] = Some True
   \<and> Map_eq [(1 :: Integer, VInteger 1), (2, VInteger 2)] [(1, VInteger 1)] = None"
  by (simp add: Map_eq_def Entry_eq_def)

subsection \<open>The ordered map\<close>

lemma map_find_insert_same:
  "\<not> cmp key key \<Longrightarrow> map_find cmp m key = None \<Longrightarrow> map_find cmp (map_insert cmp key val m) key = Some val"
  by (induction m) (auto split: if_splits)

lemma map_find_insert_other:
  assumes tr: "\<And>a b c. cmp a b \<Longrightarrow> cmp b c \<Longrightarrow> cmp a c"
    and ne: "cmp key k' \<or> cmp k' key"
  shows "map_find cmp (map_insert cmp key val m) k' = map_find cmp m k'"
proof (induction m)
  case Nil
  from ne show ?case by auto
next
  case (Cons e es)
  obtain k v where e: "e = (k, v)" by (cases e)
  show ?case
  proof (cases "cmp k key")
    case True
    with Cons e show ?thesis by simp
  next
    case nlt: False
    show ?thesis
    proof (cases "cmp key k")
      case True
      from ne show ?thesis
      proof
        assume "cmp key k'"
        with nlt True e show ?thesis by simp
      next
        assume a: "cmp k' key"
        then have "cmp k' k" using True by (rule tr)
        moreover have "\<not> cmp k k'" using tr [OF _ a] nlt by blast
        ultimately show ?thesis using nlt True e a by simp
      qed
    next
      case False
      with nlt e show ?thesis by simp
    qed
  qed
qed

lemma map_find_assign_same:
  "map_find cmp m key = Some v \<Longrightarrow> map_find cmp (map_assign cmp key val m) key = Some val"
  by (induction m) (auto split: if_splits)

lemma map_assign_insert:
  "\<not> cmp key key \<Longrightarrow> map_find cmp m key = None \<Longrightarrow>
   map_assign cmp key val (map_insert cmp key VNone m) = map_insert cmp key val m"
  by (induction m) (auto split: if_splits)


lemma strict_order_CompareById: "strict_order CompareById"
  by (auto simp: strict_order_def CompareById_def)

lemma strict_order_word_sless: "strict_order (word_sless :: Integer \<Rightarrow> Integer \<Rightarrow> bool)"
  by (auto simp: strict_order_def word_sless_alt)

text \<open>
  Claim C8. For a comparator that is a strict order and every key \<open>k\<close>:
  when \<open>k\<close> is missing, \<open>operator[]\<close> returns a NONE value and leaves it in the map under
  \<open>k\<close>, \<open>at\<close> throws \<open>std::out_of_range\<close>, and \<open>operator()\<close> in both forms returns the
  given default and leaves it in the map under \<open>k\<close>, the entries of all other keys being
  as before; when \<open>k\<close> is present with value \<open>v\<close>, \<open>operator()\<close> in both forms returns \<open>v\<close>
  and leaves the map (and the default) unchanged.
\<close>

theorem Map_access:
  assumes so: "strict_order cmp"
  shows "(\<not> Map_hasMember cmp m k \<longrightarrow>
            Map_subscript cmp m k = (VNone, map_insert cmp k VNone m)
          \<and> Map_at cmp (map_insert cmp k VNone m) k = Inr VNone
          \<and> Map_at cmp m k = Inl out_of_range
          \<and> Map_call cmp m k d = Inr (d, map_insert cmp k d m)
          \<and> Map_call_move cmp m k d = Inr (d, map_insert cmp k d m, VNone)
          \<and> Map_at cmp (map_insert cmp k d m) k = Inr d
          \<and> (\<forall>k'. cmp k k' \<or> cmp k' k \<longrightarrow>
                Map_at cmp (map_insert cmp k d m) k' = Map_at cmp m k'))
       \<and> (map_find cmp m k = Some v \<longrightarrow>
            Map_hasMember cmp m k
          \<and> Map_subscript cmp m k = (v, m)
          \<and> Map_at cmp m k = Inr v
          \<and> Map_call cmp m k d = Inr (v, m)
          \<and> Map_call_move cmp m k d = Inr (v, m, d))"
proof -
  from so have irr: "\<not> cmp k k" and tr: "\<And>a b c. cmp a b \<Longrightarrow> cmp b c \<Longrightarrow> cmp a c"
    unfolding strict_order_def by blast+
  have missing: ?thesis if nm: "map_find cmp m k = None"
  proof -
    have f: "map_find cmp (map_insert cmp k x m) k = Some x" for x
      using irr nm by (rule map_find_insert_same)
    have a: "map_assign cmp k d (map_insert cmp k VNone m) = map_insert cmp k d m"
      using irr nm by (rule map_assign_insert)
    have sub: "Map_subscript cmp m k = (VNone, map_insert cmp k VNone m)"
      by (simp add: Map_subscript_def nm)
    have call: "Map_call cmp m k d = Inr (d, map_insert cmp k d m)"
      by (simp add: Map_call_def Map_hasMember_def nm sub a Map_at_def f)
    have mv: "Map_call_move cmp m k d = Inr (d, map_insert cmp k d m, VNone)"
      by (simp add: Map_call_move_def Map_hasMember_def nm sub a Map_at_def f)
    have frame: "\<forall>k'. cmp k k' \<or> cmp k' k \<longrightarrow>
        Map_at cmp (map_insert cmp k d m) k' = Map_at cmp m k'"
      by (simp add: Map_at_def map_find_insert_other [OF tr])
    from sub call mv frame show ?thesis
      by (simp add: Map_at_def f nm)
  qed
  have present: ?thesis if p: "map_find cmp m k = Some w" for w
    using p by (simp add: Map_hasMember_def Map_subscript_def Map_at_def Map_call_def
        Map_call_move_def)
  show ?thesis
    using missing present by (cases "map_find cmp m k") auto
qed

theorem Map_access_witness:
  "strict_order (word_sless :: Integer \<Rightarrow> Integer \<Rightarrow> bool)
   \<and> \<not> Map_hasMember word_sless [(1 :: Integer, VInteger 10)] 2
   \<and> Map_subscript word_sless [(1 :: Integer, VInteger 10)] 2
       = (VNone, [(1, VInteger 10), (2, VNone)])
   \<and> Map_at word_sless [(1 :: Integer, VInteger 10)] 2 = Inl out_of_range
   \<and> Map_call word_sless [(1 :: Integer, VInteger 10)] 2 (VBool True)
       = Inr (VBool True, [(1, VInteger 10), (2, VBool True)])
   \<and> map_find word_sless [(1 :: Integer, VInteger 10)] 1 = Some (VInteger 10)
   \<and> Map_call word_sless [(1 :: Integer, VInteger 10)] 1 (VBool True)
       = Inr (VInteger 10, [(1, VInteger 10)])"
  using Map_access [OF strict_order_word_sless, of "[(1, VInteger 10)]" 2 "VBool True" "VInteger 10"]
    Map_access [OF strict_order_word_sless, of "[(1, VInteger 10)]" 1 "VBool True" "VInteger 10"]
    strict_order_word_sless
  by (simp add: Map_hasMember_def word_sless_alt)

subsection \<open>Iteration\<close>

lemma range_for_empty: "range_for mem b b = Some []"
  by (simp add: range_for.simps)

lemma holds_array_Cons:
  "holds_array mem dat (x # xs) = (mem dat = Some x \<and> holds_array mem (Suc dat) xs)"
proof -
  have "[dat ..< dat + length (x # xs)] = dat # [Suc dat ..< Suc dat + length xs]"
    by (simp add: upt_conv_Cons del: upt_Suc)
  then show ?thesis
    by (simp only: holds_array_def list.map list.inject)
qed

lemma range_for_array: "holds_array mem dat a \<Longrightarrow> range_for mem dat (dat + length a) = Some a"
proof (induction a arbitrary: dat)
  case Nil
  show ?case by (simp add: range_for_empty)
next
  case (Cons x xs)
  from Cons.prems have hd: "mem dat = Some x" and tl: "holds_array mem (Suc dat) xs"
    by (simp_all add: holds_array_Cons)
  from tl have "range_for mem (Suc dat) (Suc dat + length xs) = Some xs"
    by (rule Cons.IH)
  then show ?case
    using hd by (subst range_for.simps) simp
qed

text \<open>
  Claim C10. For a value whose tag is not ARRAY, \<open>begin()\<close> and \<open>end()\<close> both return
  \<open>this\<close> and the iteration visits nothing. For an array whose elements lie in memory
  from \<open>dat\<close> on, \<open>begin()\<close> is \<open>dat\<close>, \<open>end()\<close> is \<open>dat\<close> plus the length, and the
  iteration visits exactly the elements, in order.
\<close>

theorem PropVal_begin_end:
  "(m_type v \<noteq> ARRAY_t \<longrightarrow>
       PropVal_begin this dat v = this \<and> PropVal_end this dat v = this
     \<and> range_for mem (PropVal_begin this dat v) (PropVal_end this dat v) = Some [])
   \<and> (holds_array mem dat a \<longrightarrow>
       PropVal_begin this dat (VArray a) = dat
     \<and> PropVal_end this dat (VArray a) = dat + length a
     \<and> range_for mem (PropVal_begin this dat (VArray a)) (PropVal_end this dat (VArray a)) = Some a)"
proof -
  have "PropVal_begin this dat v = this \<and> PropVal_end this dat v = this" if "m_type v \<noteq> ARRAY_t"
    using that by (cases v) simp_all
  then show ?thesis
    by (simp add: range_for_empty range_for_array Array_begin_def Array_end_def)
qed

theorem PropVal_begin_end_witness:
  "m_type (VInteger 7) \<noteq> ARRAY_t
   \<and> range_for (\<lambda>p. if p = 10 then Some (VInteger 1) else if p = 11 then Some (VBool True) else None)
        (PropVal_begin 3 10 (VInteger 7)) (PropVal_end 3 10 (VInteger 7)) = Some []
   \<and> holds_array (\<lambda>p. if p = 10 then Some (VInteger 1) else if p = 11 then Some (VBool True) else None)
        10 [VInteger 1, VBool True]
   \<and> range_for (\<lambda>p. if p = 10 then Some (VInteger 1) else if p = 11 then Some (VBool True) else None)
        (PropVal_begin 3 10 (VArray [VInteger 1, VBool True]))
        (PropVal_end 3 10 (VArray [VInteger 1, VBool True])) = Some [VInteger 1, VBool True]"
proof -
  let ?mem = "\<lambda>p. if p = 10 then Some (VInteger 1) else if p = 11 then Some (VBool True) else (None :: PropVal option)"
  have h: "holds_array ?mem 10 [VInteger 1, VBool True]"
    by (simp add: holds_array_Cons holds_array_def)
  show ?thesis
    using h PropVal_begin_end [of "VInteger 7" 3 10 ?mem "[VInteger 1, VBool True]"]
    by (simp add: Array_begin_def Array_end_def)
qed

end
